theory Spec2Isabelle
  imports
    Complex_Main
    "HOL-Library.Char_ord"
    "HOL-Library.List_Lexorder"
    "HOL-Library.Product_Lexorder"
begin

section \<open>Interviewer duration and performance summary (summary.py)\<close>

text \<open>
  The script loads a survey table into a pandas DataFrame and runs one straight-line
  pipeline over it: timestamp parsing and duration, discovery of the interviewer
  columns, DK/RF/NA classification of the question cells, the wide-to-long reshape,
  the grouped aggregation, the numeric sort, the display formatting and the Excel
  export. Each stage below is the corresponding block of the script, with the pandas
  operations it calls written out as list functions.

  Conventions of the model.
  \<^item> A cell is missing (\<open>NaN\<close>), a string or an integer. Float cells, and the
    dtype coercions pandas applies to numeric columns, are outside the model.
  \<^item> A string is a list of characters, one character per code point below 256.
  \<^item> Floating-point values computed by the script (seconds, means) are exact rationals.
  \<^item> \<open>pd.to_datetime\<close>, \<open>pd.to_numeric\<close> and the printing of a float are library code
    that the script only calls; they are parameters, collected in the record \<open>pandas\<close>.
  \<^item> The input table is assumed not to use the names of the columns the script derives
    after the question columns are fixed (\<open>DK_count\<close>, \<open>RF_count\<close>, \<open>NA_count\<close>,
    \<open>IntID\<close>, \<open>IntName\<close>, \<open>questions_answered\<close>) as column names of its own.
\<close>

subsection \<open>Cells, tables, library parameters\<close>

datatype cell = NaN | Str string | Num int

type_synonym row = "string \<Rightarrow> cell"

record dataframe =
  columns :: "string list"
  rows :: "row list"

datatype error = KeyError string | ValueError string

text \<open>
  \<open>to_datetime col v\<close> is the outcome of \<open>pd.to_datetime(col, errors="coerce", utc=True)\<close>
  at the element \<open>v\<close> of the column \<open>col\<close>: nanoseconds since the epoch, or \<open>None\<close> for NaT.
  \<open>to_numeric v\<close> is the outcome of \<open>pd.to_numeric(_, errors="coerce")\<close> at \<open>v\<close>, \<open>None\<close> for NaN.
  \<open>float_str x\<close> is Python's \<open>str\<close> of the float \<open>x\<close>.
\<close>

record pandas =
  to_datetime :: "cell list \<Rightarrow> cell \<Rightarrow> int option"
  to_numeric :: "cell \<Rightarrow> rat option"
  float_str :: "rat \<Rightarrow> string"

subsection \<open>Python string operations\<close>

text \<open>
  \<open>str.isspace\<close> on one character, which is also what \<open>\s\<close> matches: tab to carriage
  return, the four separators, space, next line and no-break space.
\<close>

definition isspace :: "char \<Rightarrow> bool" where
  "isspace c = ((of_char c :: int) \<in> {9, 10, 11, 12, 13, 28, 29, 30, 31, 32, 133, 160})"

definition strip :: "string \<Rightarrow> string" where
  "strip s = rev (dropWhile isspace (rev (dropWhile isspace s)))"

definition startswith :: "string \<Rightarrow> string \<Rightarrow> bool" where
  "startswith s p = (take (length p) s = p)"

definition endswith :: "string \<Rightarrow> string \<Rightarrow> bool" where
  "endswith s p = (length p \<le> length s \<and> drop (length s - length p) s = p)"

text \<open>\<open>s.replace(old, "")\<close> for a non-empty \<open>old\<close>: occurrences are removed left to right.\<close>

function replace_del :: "string \<Rightarrow> string \<Rightarrow> string" where
  "replace_del old [] = []"
| "replace_del old (c # cs) =
     (if old \<noteq> [] \<and> startswith (c # cs) old
      then replace_del old (drop (length old) (c # cs))
      else c # replace_del old cs)"
  by pat_completeness auto
termination
  by (relation "measure (\<lambda>(old, s). length s)") (auto simp: neq_Nil_conv)

text \<open>
  The decimal digits of a non-negative integer, and \<open>str\<close> of an integer; \<open>str_nat\<close> is
  only ever called on a number that is not negative, so \<open>digit_char\<close> reads inside its table.
\<close>

definition digit_char :: "int \<Rightarrow> char" where
  "digit_char d = ''0123456789'' ! nat d"

function str_nat :: "int \<Rightarrow> string" where
  "str_nat n =
     (if n < 10 then [digit_char n] else str_nat (n div 10) @ [digit_char (n mod 10)])"
  by pat_completeness auto
termination
  by (relation "measure nat") auto

definition str_int :: "int \<Rightarrow> string" where
  "str_int i = (if i < 0 then CHR ''-'' # str_nat (- i) else str_nat i)"

text \<open>\<open>str(val)\<close> of a cell.\<close>

fun str :: "cell \<Rightarrow> string" where
  "str NaN = ''nan''"
| "str (Str s) = s"
| "str (Num i) = str_int i"

subsection \<open>Response classifier (lines 76 to 109)\<close>

text \<open>
  \<open>df[question_cols].replace(r"^\s*$", np.nan, regex=True)\<close>: a string cell that consists
  of whitespace only (the empty string included) becomes NaN; every other cell is kept.
\<close>

fun replace_blank :: "cell \<Rightarrow> cell" where
  "replace_blank (Str s) = (if list_all isspace s then NaN else Str s)"
| "replace_blank c = c"

definition isna :: "cell \<Rightarrow> bool" where
  "isna val = (val = NaN)"

definition is_dk :: "cell \<Rightarrow> bool" where
  "is_dk val = (if isna val then False else endswith (strip (str val)) ''97'')"

definition is_rf :: "cell \<Rightarrow> bool" where
  "is_rf val = (if isna val then False else endswith (strip (str val)) ''99'')"

definition is_na :: "cell \<Rightarrow> bool" where
  "is_na val = (if isna val then False else endswith (strip (str val)) ''98'')"

text \<open>\<open>sum(p(v) for v in row)\<close>: Python adds the booleans as 0 and 1.\<close>

definition sum_bool :: "('a \<Rightarrow> bool) \<Rightarrow> 'a list \<Rightarrow> nat" where
  "sum_bool p vs = sum_list (map (\<lambda>v. if p v then 1 else 0) vs)"

subsection \<open>Time conversion and duration (lines 23 to 32)\<close>

text \<open>\<open>df[c]\<close> raises KeyError when the table has no column \<open>c\<close>.\<close>

definition getitem :: "dataframe \<Rightarrow> string \<Rightarrow> error + cell list" where
  "getitem df c =
     (if c \<in> set (columns df) then Inr (map (\<lambda>r. r c) (rows df)) else Inl (KeyError c))"

text \<open>\<open>df.dropna(subset=["Start_dt", "End_dt"])\<close>: a row with NaT in either column goes.\<close>

fun dropna :: "(row \<times> int option \<times> int option) list \<Rightarrow> (row \<times> int \<times> int) list" where
  "dropna [] = []"
| "dropna ((r, Some s, Some e) # xs) = (r, s, e) # dropna xs"
| "dropna (x # xs) = dropna xs"

text \<open>\<open>Timedelta.total_seconds()\<close> of a difference in nanoseconds.\<close>

definition total_seconds :: "int \<Rightarrow> rat" where
  "total_seconds ns = of_int ns / 1000000000"

text \<open>\<open>.astype(int)\<close> of a float: the fractional part is cut off, towards zero.\<close>

definition astype_int :: "rat \<Rightarrow> int" where
  "astype_int x = (if x < 0 then \<lceil>x\<rceil> else \<lfloor>x\<rfloor>)"

record timed_row =
  cells :: row
  Start_dt :: int
  End_dt :: int
  duration_minutes :: int
  duration_display :: string

definition add_duration :: "row \<times> int \<times> int \<Rightarrow> timed_row" where
  "add_duration x =
     (case x of (r, s, e) \<Rightarrow>
        let d = astype_int (total_seconds (e - s) / 60)
        in \<lparr>cells = r, Start_dt = s, End_dt = e,
            duration_minutes = d, duration_display = str_int d @ '' min''\<rparr>)"

definition time_conversion :: "pandas \<Rightarrow> dataframe \<Rightarrow> error + timed_row list" where
  "time_conversion pd df =
     (case getitem df ''StartTime_TS'' of
        Inl err \<Rightarrow> Inl err
      | Inr sc \<Rightarrow>
          (case getitem df ''EndTime_TS'' of
             Inl err \<Rightarrow> Inl err
           | Inr ec \<Rightarrow>
               Inr (map add_duration
                     (dropna (map (\<lambda>r. (r, to_datetime pd sc (r ''StartTime_TS''),
                                            to_datetime pd ec (r ''EndTime_TS'')))
                                  (rows df))))))"

subsection \<open>Column discovery (lines 37 to 74)\<close>

text \<open>\<open>df[c] = ...\<close> appends the column \<open>c\<close> unless the table already has it.\<close>

definition assign_column :: "string list \<Rightarrow> string \<Rightarrow> string list" where
  "assign_column cols c = (if c \<in> set cols then cols else cols @ [c])"

text \<open>\<open>df.columns\<close> once the four derived columns of lines 23 to 32 are there.\<close>

definition df_columns :: "string list \<Rightarrow> string list" where
  "df_columns cols =
     foldl assign_column cols [''Start_dt'', ''End_dt'', ''duration_minutes'', ''duration_display'']"

definition prefixes :: "string list" where
  "prefixes = [''F'', ''M'', ''HH'', ''ORGHH'', ''C'']"

definition interviewer_name_cols :: "string list \<Rightarrow> string list" where
  "interviewer_name_cols cols =
     [c \<leftarrow> df_columns cols. list_ex (startswith c) prefixes \<and> endswith c ''IntName_W4'']"

definition interviewer_id_cols :: "string list \<Rightarrow> string list" where
  "interviewer_id_cols cols =
     [c \<leftarrow> df_columns cols. list_ex (startswith c) prefixes \<and> endswith c ''IntID_W4'']"

definition display_cols :: "string list \<Rightarrow> string list" where
  "display_cols cols =
     [''ID''] @ interviewer_id_cols cols @ interviewer_name_cols cols
     @ [''Start_dt'', ''End_dt'', ''duration_minutes'']"

text \<open>
  The table shown by \<open>st.dataframe(df[display_cols])\<close>: per retained row the cells of
  \<open>ID\<close> and of the interviewer columns, then the two instants and the duration.
\<close>

record check_table =
  check_columns :: "string list"
  check_rows :: "(cell list \<times> int \<times> int \<times> int) list"

definition duration_check :: "string list \<Rightarrow> timed_row list \<Rightarrow> error + check_table" where
  "duration_check cols df =
     (if ''ID'' \<in> set (df_columns cols)
      then Inr \<lparr>check_columns = display_cols cols,
               check_rows =
                 map (\<lambda>t. (map (cells t)
                              ([''ID''] @ interviewer_id_cols cols @ interviewer_name_cols cols),
                            Start_dt t, End_dt t, duration_minutes t)) df\<rparr>
      else Inl (KeyError ''ID''))"

definition exclude_cols :: "string list \<Rightarrow> string list" where
  "exclude_cols cols =
     [''ID'', ''StartTime_TS'', ''EndTime_TS'', ''Start_dt'', ''End_dt'',
      ''duration_minutes'', ''duration_display'']
     @ interviewer_name_cols cols @ interviewer_id_cols cols"

definition question_cols :: "string list \<Rightarrow> string list" where
  "question_cols cols = [c \<leftarrow> df_columns cols. c \<notin> set (exclude_cols cols)]"

subsection \<open>DK / RF / NA counts per row (lines 76 to 109)\<close>

record wide_row = timed_row +
  DK_count :: nat
  RF_count :: nat
  NA_count :: nat

definition replace_questions :: "string list \<Rightarrow> row \<Rightarrow> row" where
  "replace_questions qs r = (\<lambda>c. if c \<in> set qs then replace_blank (r c) else r c)"

definition classify :: "string list \<Rightarrow> timed_row \<Rightarrow> wide_row" where
  "classify qs t =
     (let r = replace_questions qs (cells t); vs = map r qs
      in \<lparr>cells = r, Start_dt = Start_dt t, End_dt = End_dt t,
          duration_minutes = duration_minutes t, duration_display = duration_display t,
          DK_count = sum_bool is_dk vs,
          RF_count = sum_bool is_rf vs,
          NA_count = sum_bool is_na vs\<rparr>)"

subsection \<open>Long interviewer table (lines 113 to 139)\<close>

text \<open>
  One row of \<open>temp\<close>. The question columns travel with \<open>temp\<close> only to be counted into
  \<open>questions_answered\<close>; the aggregation reads none of them, so the record leaves them out.
\<close>

record long_row =
  IntID :: cell
  IntName :: cell
  duration_minutes :: int
  DK_count :: nat
  RF_count :: nat
  NA_count :: nat
  questions_answered :: nat

definition id_col_for :: "string list \<Rightarrow> string \<Rightarrow> string option" where
  "id_col_for id_cols name_col =
     (let prefix = replace_del ''IntName_W4'' name_col
      in find (\<lambda>c. startswith c prefix) id_cols)"

definition temp :: "string list \<Rightarrow> string \<Rightarrow> string \<Rightarrow> wide_row list \<Rightarrow> long_row list" where
  "temp qs id_col name_col df =
     map (\<lambda>w. \<lparr>IntID = cells w id_col, IntName = cells w name_col,
               duration_minutes = timed_row.duration_minutes w,
               DK_count = wide_row.DK_count w,
               RF_count = wide_row.RF_count w,
               NA_count = wide_row.NA_count w,
               questions_answered = sum_bool (\<lambda>v. \<not> isna v) (map (cells w) qs)\<rparr>) df"

text \<open>The loop over the name columns; \<open>if id_col:\<close> is false for None and for the empty string.\<close>

fun all_interviewer_data ::
  "string list \<Rightarrow> string list \<Rightarrow> wide_row list \<Rightarrow> string list \<Rightarrow> long_row list list" where
  "all_interviewer_data id_cols qs df [] = []"
| "all_interviewer_data id_cols qs df (name_col # rest) =
     (case id_col_for id_cols name_col of
        None \<Rightarrow> all_interviewer_data id_cols qs df rest
      | Some id_col \<Rightarrow>
          if id_col = [] then all_interviewer_data id_cols qs df rest
          else temp qs id_col name_col df # all_interviewer_data id_cols qs df rest)"

text \<open>\<open>pd.concat\<close> raises ValueError on an empty list of frames.\<close>

definition pd_concat :: "'a list list \<Rightarrow> error + 'a list" where
  "pd_concat frames =
     (if frames = [] then Inl (ValueError ''No objects to concatenate'')
      else Inr (concat frames))"

subsection \<open>Aggregation per interviewer id (lines 144 to 158)\<close>

text \<open>
  \<open>groupby("IntID", as_index=False)\<close> drops the rows whose key is NaN, makes one group per
  distinct key and lists the groups in sorted key order: integers in numeric order, then
  strings in code-point order.
\<close>

fun group_order :: "cell \<Rightarrow> nat \<times> int \<times> string" where
  "group_order (Num i) = (0, i, [])"
| "group_order (Str s) = (1, 0, s)"
| "group_order NaN = (2, 0, [])"

definition group_keys :: "long_row list \<Rightarrow> cell list" where
  "group_keys long_df =
     sort_key group_order (remdups [IntID r. r \<leftarrow> long_df, \<not> isna (IntID r)])"

text \<open>The aggregation \<open>"first"\<close> takes the first value of the group that is not NaN.\<close>

definition first :: "cell list \<Rightarrow> cell" where
  "first vs = (case filter (\<lambda>v. \<not> isna v) vs of [] \<Rightarrow> NaN | v # _ \<Rightarrow> v)"

definition mean :: "int list \<Rightarrow> rat" where
  "mean xs = of_int (sum_list xs) / of_nat (length xs)"

record 'q agg_row =
  IntID :: cell
  IntName :: cell
  total_interviews :: nat
  avg_duration_minutes :: rat
  min_duration_minutes :: int
  max_duration_minutes :: int
  avg_questions :: 'q
  total_DK :: nat
  total_RF :: nat
  total_NA :: nat

definition agg :: "cell \<Rightarrow> long_row list \<Rightarrow> rat agg_row" where
  "agg k g =
     \<lparr>IntID = k,
      IntName = first (map long_row.IntName g),
      total_interviews = length (map long_row.duration_minutes g),
      avg_duration_minutes = mean (map long_row.duration_minutes g),
      min_duration_minutes = Min (set (map long_row.duration_minutes g)),
      max_duration_minutes = Max (set (map long_row.duration_minutes g)),
      avg_questions = mean (map (int \<circ> questions_answered) g),
      total_DK = sum_list (map long_row.DK_count g),
      total_RF = sum_list (map long_row.RF_count g),
      total_NA = sum_list (map long_row.NA_count g)\<rparr>"

definition group_of :: "cell \<Rightarrow> long_row list \<Rightarrow> long_row list" where
  "group_of k long_df = [r \<leftarrow> long_df. long_row.IntID r = k]"

definition groupby_agg :: "long_row list \<Rightarrow> rat agg_row list" where
  "groupby_agg long_df = map (\<lambda>k. agg k (group_of k long_df)) (group_keys long_df)"

subsection \<open>Sort by interviewer id (lines 163 to 164)\<close>

text \<open>
  \<open>IntID_sort\<close> is the id as a number, NaN where it is none; \<open>sort_values\<close> orders the
  numbers ascending and puts the NaN keys last. The pair \<open>(is NaN, number)\<close> under the
  lexicographic order is that key. Rows with equal keys are kept in the order they had;
  no property below depends on the order among them.
\<close>

definition IntID_sort :: "pandas \<Rightarrow> ('q, 'z) agg_row_scheme \<Rightarrow> bool \<times> rat" where
  "IntID_sort pd g = (case to_numeric pd (IntID g) of None \<Rightarrow> (True, 0) | Some x \<Rightarrow> (False, x))"

definition sort_values :: "pandas \<Rightarrow> rat agg_row list \<Rightarrow> rat agg_row list" where
  "sort_values pd final_df = sort_key (IntID_sort pd) final_df"

subsection \<open>Formatting (lines 169 to 181)\<close>

text \<open>\<open>Series.round\<close> is numpy's rounding: to the nearest value, a tie to the even one.\<close>

definition round_half_even :: "rat \<Rightarrow> int" where
  "round_half_even x =
     (let f = \<lfloor>x\<rfloor>; d = x - of_int f
      in if d < 1 / 2 then f else if 1 / 2 < d then f + 1 else if even f then f else f + 1)"

definition round2 :: "rat \<Rightarrow> rat" where
  "round2 x = of_int (round_half_even (x * 100)) / 100"

record final_row = "int agg_row" +
  avg_duration_display :: string
  min_duration_display :: string
  max_duration_display :: string

definition format_row :: "pandas \<Rightarrow> rat agg_row \<Rightarrow> final_row" where
  "format_row pd g =
     \<lparr>IntID = IntID g,
      IntName = IntName g,
      total_interviews = total_interviews g,
      avg_duration_minutes = avg_duration_minutes g,
      min_duration_minutes = min_duration_minutes g,
      max_duration_minutes = max_duration_minutes g,
      avg_questions = round_half_even (avg_questions g),
      total_DK = total_DK g,
      total_RF = total_RF g,
      total_NA = total_NA g,
      avg_duration_display = float_str pd (round2 (avg_duration_minutes g)) @ '' min'',
      min_duration_display = str_int (min_duration_minutes g) @ '' min'',
      max_duration_display = str_int (max_duration_minutes g) @ '' min''\<rparr>"

text \<open>
  The columns of \<open>final_df\<close>: the key and the aggregates in the order of \<open>.agg\<close>, then
  \<open>IntID_sort\<close> added and dropped, then the assignments of lines 169 to 181 in their order.
\<close>

definition agg_columns :: "string list" where
  "agg_columns =
     [''IntID'', ''IntName'', ''total_interviews'', ''avg_duration_minutes'',
      ''min_duration_minutes'', ''max_duration_minutes'', ''avg_questions'',
      ''total_DK'', ''total_RF'', ''total_NA'']"

definition final_columns :: "string list" where
  "final_columns =
     foldl assign_column (removeAll ''IntID_sort'' (assign_column agg_columns ''IntID_sort''))
       [''avg_duration_display'', ''min_duration_display'', ''max_duration_display'',
        ''avg_questions'', ''total_DK'', ''total_RF'', ''total_NA'']"

datatype xl_value = XCell cell | XInt int | XFloat rat | XText string

text \<open>The value a row of \<open>final_df\<close> holds in each of its columns.\<close>

definition final_items :: "final_row \<Rightarrow> (string \<times> xl_value) list" where
  "final_items r =
     [(''IntID'', XCell (IntID r)),
      (''IntName'', XCell (IntName r)),
      (''total_interviews'', XInt (int (total_interviews r))),
      (''avg_duration_minutes'', XFloat (avg_duration_minutes r)),
      (''min_duration_minutes'', XInt (min_duration_minutes r)),
      (''max_duration_minutes'', XInt (max_duration_minutes r)),
      (''avg_questions'', XInt (avg_questions r)),
      (''total_DK'', XInt (int (total_DK r))),
      (''total_RF'', XInt (int (total_RF r))),
      (''total_NA'', XInt (int (total_NA r))),
      (''avg_duration_display'', XText (avg_duration_display r)),
      (''min_duration_display'', XText (min_duration_display r)),
      (''max_duration_display'', XText (max_duration_display r))]"

subsection \<open>Display and export (lines 188 to 220)\<close>

record sheet =
  sheet_name :: string
  header :: "string list"
  body :: "xl_value list list"

text \<open>\<open>final_df[cols]\<close>: the named columns, in the order asked for.\<close>

definition select_cols :: "string list \<Rightarrow> (string \<times> xl_value) list \<Rightarrow> xl_value list" where
  "select_cols cols items = concat (map (\<lambda>c. [v. (k, v) \<leftarrow> items, k = c]) cols)"

definition summary_cols :: "string list" where
  "summary_cols =
     [''IntID'', ''IntName'', ''total_interviews'',
      ''min_duration_display'', ''avg_duration_display'', ''max_duration_display'',
      ''avg_questions'', ''total_DK'', ''total_RF'', ''total_NA'']"

text \<open>The table shown by \<open>st.dataframe(final_df[[...]])\<close>; the sheet name is not part of it.\<close>

definition summary_display :: "final_row list \<Rightarrow> sheet" where
  "summary_display final_df =
     \<lparr>sheet_name = [], header = summary_cols,
      body = map (\<lambda>r. select_cols summary_cols (final_items r)) final_df\<rparr>"

text \<open>\<open>final_df.to_excel(writer, index=False, sheet_name='Interviewer Stats')\<close>.\<close>

definition to_excel :: "final_row list \<Rightarrow> sheet list" where
  "to_excel final_df =
     [\<lparr>sheet_name = ''Interviewer Stats'', header = final_columns,
       body = map (\<lambda>r. select_cols final_columns (final_items r)) final_df\<rparr>]"

subsection \<open>The whole run\<close>

record report =
  duration_table :: check_table
  wide_df :: "wide_row list"
  long_df :: "long_row list"
  final_df :: "final_row list"
  summary_table :: sheet
  workbook :: "sheet list"
  total_interviews_text :: nat
  overall_average_text :: "rat option"

definition reshape :: "string list \<Rightarrow> wide_row list \<Rightarrow> error + long_row list" where
  "reshape cols df =
     pd_concat (all_interviewer_data (interviewer_id_cols cols) (question_cols cols) df
                  (interviewer_name_cols cols))"

definition aggregate :: "pandas \<Rightarrow> long_row list \<Rightarrow> final_row list" where
  "aggregate pd long = map (format_row pd) (sort_values pd (groupby_agg long))"

definition pipeline :: "pandas \<Rightarrow> dataframe \<Rightarrow> error + report" where
  "pipeline pd df =
     (case time_conversion pd df of
        Inl err \<Rightarrow> Inl err
      | Inr timed \<Rightarrow>
          (case duration_check (columns df) timed of
             Inl err \<Rightarrow> Inl err
           | Inr shown \<Rightarrow>
               let wide = map (classify (question_cols (columns df))) timed
               in (case reshape (columns df) wide of
                     Inl err \<Rightarrow> Inl err
                   | Inr long \<Rightarrow>
                       let final = aggregate pd long
                       in Inr \<lparr>duration_table = shown,
                               wide_df = wide,
                               long_df = long,
                               final_df = final,
                               summary_table = summary_display final,
                               workbook = to_excel final,
                               total_interviews_text = length wide,
                               overall_average_text =
                                 (if wide = [] then None
                                  else Some (round2 (mean (map timed_row.duration_minutes wide))))\<rparr>)))"

subsection \<open>A sample instance of the library parameters and sample tables\<close>

text \<open>
  The theorems below hold for every instance of the record \<open>pandas\<close>. To run the
  pipeline on concrete tables, the parameters are instantiated on the fragment the
  tables use: timestamps of the form \<open>YYYY-MM-DDTHH:MM:SSZ\<close>, ids written as decimal
  integers, and floats with at most two decimals.
\<close>

definition digit_of :: "char \<Rightarrow> int option" where
  "digit_of c =
     (let n = (of_char c :: int) in if 48 \<le> n \<and> n \<le> 57 then Some (n - 48) else None)"

fun decimal_from :: "int \<Rightarrow> string \<Rightarrow> int option" where
  "decimal_from acc [] = Some acc"
| "decimal_from acc (c # cs) =
     (case digit_of c of None \<Rightarrow> None | Some d \<Rightarrow> decimal_from (10 * acc + d) cs)"

definition decimal :: "string \<Rightarrow> int option" where
  "decimal s = (if s = [] then None else decimal_from 0 s)"

text \<open>Days from 1970-01-01 to a date of the proleptic Gregorian calendar.\<close>

definition days_from_civil :: "int \<Rightarrow> int \<Rightarrow> int \<Rightarrow> int" where
  "days_from_civil y m d =
     (let y' = (if m \<le> 2 then y - 1 else y);
          era = y' div 400;
          yoe = y' - era * 400;
          doy = (153 * (if 2 < m then m - 3 else m + 9) + 2) div 5 + d - 1;
          doe = yoe * 365 + yoe div 4 - yoe div 100 + doy
      in era * 146097 + doe - 719468)"

definition iso_utc :: "string \<Rightarrow> int option" where
  "iso_utc s =
     (if length s = 20 \<and> s ! 4 = CHR ''-'' \<and> s ! 7 = CHR ''-'' \<and> s ! 10 = CHR ''T''
         \<and> s ! 13 = CHR '':'' \<and> s ! 16 = CHR '':'' \<and> s ! 19 = CHR ''Z''
      then (case (decimal (take 4 s), decimal (take 2 (drop 5 s)), decimal (take 2 (drop 8 s)),
                  decimal (take 2 (drop 11 s)), decimal (take 2 (drop 14 s)),
                  decimal (take 2 (drop 17 s))) of
              (Some y, Some m, Some d, Some hh, Some mm, Some ss) \<Rightarrow>
                if 1 \<le> m \<and> m \<le> 12 \<and> 1 \<le> d \<and> d \<le> 31 \<and> hh < 24 \<and> mm < 60 \<and> ss < 60
                then Some ((((days_from_civil y m d * 24 + hh) * 60 + mm) * 60 + ss)
                           * 1000000000)
                else None
            | _ \<Rightarrow> None)
      else None)"

fun sample_to_datetime :: "cell list \<Rightarrow> cell \<Rightarrow> int option" where
  "sample_to_datetime col (Str s) = iso_utc s"
| "sample_to_datetime col v = None"

fun sample_to_numeric :: "cell \<Rightarrow> rat option" where
  "sample_to_numeric (Num i) = Some (of_int i)"
| "sample_to_numeric (Str s) =
     (case strip s of
        [] \<Rightarrow> None
      | c # cs \<Rightarrow>
          if c = CHR ''-'' then map_option (\<lambda>n. - of_int n) (decimal cs)
          else map_option of_int (decimal (c # cs)))"
| "sample_to_numeric NaN = None"

definition sample_float_str :: "rat \<Rightarrow> string" where
  "sample_float_str x =
     (let n = round_half_even (\<bar>x\<bar> * 100); fp = n mod 100
      in (if x < 0 then ''-'' else [])
         @ str_int (n div 100) @ ''.''
         @ (if fp mod 10 = 0 then str_int (fp div 10)
            else str_int (fp div 10) @ str_int (fp mod 10)))"

definition sample_pd :: pandas where
  "sample_pd =
     \<lparr>to_datetime = sample_to_datetime, to_numeric = sample_to_numeric,
      float_str = sample_float_str\<rparr>"

text \<open>A table given as its header and its rows of cells, as a file reader delivers it.\<close>

definition mk_row :: "string list \<Rightarrow> cell list \<Rightarrow> row" where
  "mk_row cols vs = (\<lambda>c. case map_of (zip cols vs) c of None \<Rightarrow> NaN | Some v \<Rightarrow> v)"

definition table :: "string list \<Rightarrow> cell list list \<Rightarrow> dataframe" where
  "table cols data = \<lparr>columns = cols, rows = map (mk_row cols) data\<rparr>"

text \<open>
  Four respondents, the roles F and M, three question columns. The third respondent has
  no readable start time; the second ended before starting and has no M interviewer.
\<close>

definition survey :: dataframe where
  "survey = table
     [''ID'', ''StartTime_TS'', ''EndTime_TS'', ''FIntID_W4'', ''FIntName_W4'',
      ''MIntID_W4'', ''MIntName_W4'', ''Q1'', ''Q2'', ''Q3'']
     [[Str ''r1'', Str ''2024-01-01T10:00:00Z'', Str ''2024-01-01T10:29:45Z'',
       Str ''5'', Str ''Asha'', Str ''3'', Str ''Bina'', Str ''197'', Str '' '', Str ''1''],
      [Str ''r2'', Str ''2024-01-01T11:00:00Z'', Str ''2024-01-01T10:58:30Z'',
       Str ''3'', NaN, NaN, NaN, Str ''199'', Str ''198'', Str ''1997''],
      [Str ''r3'', Str ''yesterday'', Str ''2024-01-01T12:00:00Z'',
       Str ''5'', Str ''Asha'', Str ''3'', Str ''Bina'', Str ''97'', Str ''97'', Str ''97''],
      [Str ''r4'', Str ''2024-01-01T09:00:00Z'', Str ''2024-01-01T09:40:00Z'',
       Str ''x7'', Str ''Chandra'', Str ''5'', Str ''Asha'', Num 97, NaN, Str []]]"

text \<open>Two respondents and the single role F, with the ids 5 and 3.\<close>

definition scenario :: dataframe where
  "scenario = table
     [''ID'', ''StartTime_TS'', ''EndTime_TS'', ''FIntID_W4'', ''FIntName_W4'', ''Q1'']
     [[Str ''a'', Str ''2024-01-01T10:00:00Z'', Str ''2024-01-01T10:29:45Z'',
       Str ''5'', Str ''Asha'', Str ''1''],
      [Str ''b'', Str ''2024-01-01T10:00:00Z'', Str ''2024-01-01T10:45:00Z'',
       Str ''3'', Str ''Bina'', Str ''2'']]"

text \<open>A role with a name column and no id column at all.\<close>

definition orphan_role :: dataframe where
  "orphan_role = table
     [''ID'', ''StartTime_TS'', ''EndTime_TS'', ''FIntName_W4'', ''Q1'']
     [[Str ''a'', Str ''2024-01-01T10:00:00Z'', Str ''2024-01-01T10:29:45Z'',
       Str ''Asha'', Str ''1'']]"

subsection \<open>Notions of the specification\<close>


text \<open>Rounding to the nearest integer with a tie going up, the default the specification names.\<close>

definition round_half_up :: "rat \<Rightarrow> int" where
  "round_half_up x = \<lfloor>x + 1 / 2\<rfloor>"


text \<open>
  The roles the reshape keeps: the name columns for which the lookup of an id column
  succeeds, in column order.
\<close>

definition resolved_roles :: "string list \<Rightarrow> string list" where
  "resolved_roles cols =
     [n \<leftarrow> interviewer_name_cols cols.
        case id_col_for (interviewer_id_cols cols) n of None \<Rightarrow> False | Some i \<Rightarrow> i \<noteq> []]"



section \<open>Properties\<close>

subsection \<open>Structure of a successful run\<close>

lemma pipeline_InrD:
  assumes "pipeline pd df = Inr rep"
  shows "\<exists>timed shown.
           time_conversion pd df = Inr timed \<and>
           duration_check (columns df) timed = Inr shown \<and>
           duration_table rep = shown \<and>
           wide_df rep = map (classify (question_cols (columns df))) timed \<and>
           reshape (columns df) (wide_df rep) = Inr (long_df rep) \<and>
           final_df rep = aggregate pd (long_df rep) \<and>
           summary_table rep = summary_display (final_df rep) \<and>
           workbook rep = to_excel (final_df rep)"
  using assms unfolding pipeline_def Let_def
  by (auto split: sum.splits)




subsection \<open>The sample tables, run once\<close>

lemma survey_runs: "\<not> isl (pipeline sample_pd survey)"
  by code_simp

lemma survey_Inr: "pipeline sample_pd survey = Inr (projr (pipeline sample_pd survey))"
  using survey_runs by simp


subsection \<open>Response classification\<close>









subsection \<open>Duration\<close>




subsection \<open>Rows without readable timestamps\<close>




lemma set_df_columns:
  "set (df_columns cols) =
     set cols \<union> {''Start_dt'', ''End_dt'', ''duration_minutes'', ''duration_display''}"
  by (auto simp: df_columns_def assign_column_def)

lemma all_interviewer_data_resolved:
  "all_interviewer_data ids qs df names =
     map (\<lambda>n. temp qs (the (id_col_for ids n)) n df)
       [n \<leftarrow> names. case id_col_for ids n of None \<Rightarrow> False | Some i \<Rightarrow> i \<noteq> []]"
  by (induction names) (auto split: option.splits)

lemma reshape_resolved:
  "reshape cols df =
     (if resolved_roles cols = [] then Inl (ValueError ''No objects to concatenate'')
      else Inr (concat (map (\<lambda>n. temp (question_cols cols)
                                   (the (id_col_for (interviewer_id_cols cols) n)) n df)
                            (resolved_roles cols))))"
  by (simp add: reshape_def pd_concat_def all_interviewer_data_resolved resolved_roles_def)









subsection \<open>Reshape to the long table\<close>

lemma survey_long:
  "long_df (projr (pipeline sample_pd survey)) =
     [\<lparr>long_row.IntID = Str ''5'', long_row.IntName = Str ''Asha'',
       long_row.duration_minutes = 29, long_row.DK_count = 1, long_row.RF_count = 0,
       long_row.NA_count = 0, long_row.questions_answered = 2\<rparr>,
      \<lparr>long_row.IntID = Str ''3'', long_row.IntName = NaN,
       long_row.duration_minutes = - 1, long_row.DK_count = 1, long_row.RF_count = 1,
       long_row.NA_count = 1, long_row.questions_answered = 3\<rparr>,
      \<lparr>long_row.IntID = Str ''x7'', long_row.IntName = Str ''Chandra'',
       long_row.duration_minutes = 40, long_row.DK_count = 1, long_row.RF_count = 0,
       long_row.NA_count = 0, long_row.questions_answered = 1\<rparr>,
      \<lparr>long_row.IntID = Str ''3'', long_row.IntName = Str ''Bina'',
       long_row.duration_minutes = 29, long_row.DK_count = 1, long_row.RF_count = 0,
       long_row.NA_count = 0, long_row.questions_answered = 2\<rparr>,
      \<lparr>long_row.IntID = NaN, long_row.IntName = NaN,
       long_row.duration_minutes = - 1, long_row.DK_count = 1, long_row.RF_count = 1,
       long_row.NA_count = 1, long_row.questions_answered = 3\<rparr>,
      \<lparr>long_row.IntID = Str ''5'', long_row.IntName = Str ''Asha'',
       long_row.duration_minutes = 40, long_row.DK_count = 1, long_row.RF_count = 0,
       long_row.NA_count = 0, long_row.questions_answered = 1\<rparr>]"
  by code_simp







subsection \<open>Aggregation\<close>

lemma filter_eq_distinct: "distinct xs \<Longrightarrow> k \<in> set xs \<Longrightarrow> filter (\<lambda>x. x = k) xs = [k]"
  by (induction xs) (auto simp: filter_empty_conv)

lemma group_keys_set: "set (group_keys long) = {k \<in> long_row.IntID ` set long. k \<noteq> NaN}"
  by (auto simp: group_keys_def isna_def)

lemma group_keys_distinct: "distinct (group_keys long)"
  by (simp add: group_keys_def)

lemma IntID_format_row [simp]: "IntID (format_row pd g) = IntID g"
  by (simp add: format_row_def)

lemma IntID_agg [simp]: "IntID (agg k g) = k"
  by (simp add: agg_def)

lemma aggregate_filter:
  assumes "k \<in> set (group_keys long)"
  shows "[s \<leftarrow> aggregate pd long. IntID s = k] = [format_row pd (agg k (group_of k long))]"
proof -
  have "[s \<leftarrow> aggregate pd long. IntID s = k]
        = map (format_row pd)
            (sort_key (IntID_sort pd)
               (map (\<lambda>k. agg k (group_of k long)) [x \<leftarrow> group_keys long. x = k]))"
    by (simp add: aggregate_def sort_values_def groupby_agg_def filter_map comp_def filter_sort)
  also have "[x \<leftarrow> group_keys long. x = k] = [k]"
    by (rule filter_eq_distinct[OF group_keys_distinct assms])
  finally show ?thesis by simp
qed

lemma aggregate_mem:
  "s \<in> set (aggregate pd long) \<longleftrightarrow>
     (\<exists>k \<in> set (group_keys long). s = format_row pd (agg k (group_of k long)))"
  by (auto simp: aggregate_def sort_values_def groupby_agg_def)

text \<open>
  C5. For every interviewer id that occurs in the long table, the summary has exactly one
  row with that id. Its \<open>total_interviews\<close> is the number of long rows with the id, its
  average duration their arithmetic mean, its minimum and maximum duration the least and
  the greatest of their durations, its DK, RF and NA totals the sums of their counts, and
  its name the first name among them that is not missing (missing if there is none).
\<close>

theorem summary_per_interviewer:
  assumes "pipeline pd df = Inr rep"
    and "l \<in> set (long_df rep)" and "long_row.IntID l \<noteq> NaN"
  shows "let g = [x \<leftarrow> long_df rep. long_row.IntID x = long_row.IntID l];
             ds = map long_row.duration_minutes g
         in \<exists>s. [x \<leftarrow> final_df rep. IntID x = long_row.IntID l] = [s]
              \<and> total_interviews s = length g
              \<and> avg_duration_minutes s = of_int (sum_list ds) / of_nat (length g)
              \<and> min_duration_minutes s \<in> set ds \<and> (\<forall>d \<in> set ds. min_duration_minutes s \<le> d)
              \<and> max_duration_minutes s \<in> set ds \<and> (\<forall>d \<in> set ds. d \<le> max_duration_minutes s)
              \<and> total_DK s = sum_list (map long_row.DK_count g)
              \<and> total_RF s = sum_list (map long_row.RF_count g)
              \<and> total_NA s = sum_list (map long_row.NA_count g)
              \<and> IntName s = (case [n \<leftarrow> map long_row.IntName g. n \<noteq> NaN] of
                               [] \<Rightarrow> NaN | n # _ \<Rightarrow> n)"
proof -
  let ?k = "long_row.IntID l"
  let ?g = "[x \<leftarrow> long_df rep. long_row.IntID x = ?k]"
  let ?ds = "map long_row.duration_minutes ?g"
  let ?s = "format_row pd (agg ?k ?g)"
  from pipeline_InrD[OF assms(1)] have fd: "final_df rep = aggregate pd (long_df rep)"
    by blast
  have k: "?k \<in> set (group_keys (long_df rep))"
    using assms(2,3) by (simp add: group_keys_set)
  have one: "[x \<leftarrow> final_df rep. IntID x = ?k] = [?s]"
    unfolding fd using aggregate_filter[OF k] by (simp add: group_of_def)
  have "l \<in> set ?g" using assms(2) by simp
  then have ne: "set ?ds \<noteq> {}" by auto
  have mn: "Min (set ?ds) \<in> set ?ds" "\<forall>d \<in> set ?ds. Min (set ?ds) \<le> d"
    using ne by (simp_all del: set_map)
  have mx: "Max (set ?ds) \<in> set ?ds" "\<forall>d \<in> set ?ds. d \<le> Max (set ?ds)"
    using ne by (simp_all del: set_map)
  have "total_interviews ?s = length ?g
      \<and> avg_duration_minutes ?s = of_int (sum_list ?ds) / of_nat (length ?g)
      \<and> min_duration_minutes ?s \<in> set ?ds \<and> (\<forall>d \<in> set ?ds. min_duration_minutes ?s \<le> d)
      \<and> max_duration_minutes ?s \<in> set ?ds \<and> (\<forall>d \<in> set ?ds. d \<le> max_duration_minutes ?s)
      \<and> total_DK ?s = sum_list (map long_row.DK_count ?g)
      \<and> total_RF ?s = sum_list (map long_row.RF_count ?g)
      \<and> total_NA ?s = sum_list (map long_row.NA_count ?g)
      \<and> IntName ?s = (case [n \<leftarrow> map long_row.IntName ?g. n \<noteq> NaN] of
                               [] \<Rightarrow> NaN | n # _ \<Rightarrow> n)"
    using mn mx by (simp add: format_row_def agg_def mean_def first_def isna_def)
  with one show ?thesis
    unfolding Let_def by blast
qed

lemma survey_final:
  "final_df (projr (pipeline sample_pd survey)) =
     [\<lparr>IntID = Str ''3'', IntName = Str ''Bina'', total_interviews = 2,
       avg_duration_minutes = 14, min_duration_minutes = - 1, max_duration_minutes = 29,
       avg_questions = 2, total_DK = 2, total_RF = 1, total_NA = 1,
       avg_duration_display = ''14.0 min'', min_duration_display = ''-1 min'',
       max_duration_display = ''29 min''\<rparr>,
      \<lparr>IntID = Str ''5'', IntName = Str ''Asha'', total_interviews = 2,
       avg_duration_minutes = 69 / 2, min_duration_minutes = 29, max_duration_minutes = 40,
       avg_questions = 2, total_DK = 2, total_RF = 0, total_NA = 0,
       avg_duration_display = ''34.5 min'', min_duration_display = ''29 min'',
       max_duration_display = ''40 min''\<rparr>,
      \<lparr>IntID = Str ''x7'', IntName = Str ''Chandra'', total_interviews = 1,
       avg_duration_minutes = 40, min_duration_minutes = 40, max_duration_minutes = 40,
       avg_questions = 1, total_DK = 1, total_RF = 0, total_NA = 0,
       avg_duration_display = ''40.0 min'', min_duration_display = ''40 min'',
       max_duration_display = ''40 min''\<rparr>]"
  by code_simp

theorem summary_per_interviewer_witness:
  "pipeline sample_pd survey = Inr (projr (pipeline sample_pd survey))
   \<and> long_df (projr (pipeline sample_pd survey)) ! 1
       \<in> set (long_df (projr (pipeline sample_pd survey)))
   \<and> long_row.IntID (long_df (projr (pipeline sample_pd survey)) ! 1) \<noteq> NaN
   \<and> long_row.IntID (long_df (projr (pipeline sample_pd survey)) ! 1) = Str ''3''
   \<and> (\<exists>s. [x \<leftarrow> final_df (projr (pipeline sample_pd survey)). IntID x = Str ''3''] = [s]
          \<and> total_interviews s = 2 \<and> avg_duration_minutes s = 14
          \<and> min_duration_minutes s = - 1 \<and> max_duration_minutes s = 29
          \<and> total_DK s = 2 \<and> total_RF s = 1 \<and> total_NA s = 1 \<and> IntName s = Str ''Bina'')"
proof -
  let ?R = "projr (pipeline sample_pd survey)"
  let ?l = "long_df ?R ! 1"
  have mem: "?l \<in> set (long_df ?R)"
    by (simp add: survey_long)
  have id: "long_row.IntID ?l = Str ''3''"
    by (simp add: survey_long)
  then have ne: "long_row.IntID ?l \<noteq> NaN"
    by simp
  have g: "[x \<leftarrow> long_df ?R. long_row.IntID x = Str ''3''] =
     [\<lparr>long_row.IntID = Str ''3'', long_row.IntName = NaN,
       long_row.duration_minutes = - 1, long_row.DK_count = 1, long_row.RF_count = 1,
       long_row.NA_count = 1, long_row.questions_answered = 3\<rparr>,
      \<lparr>long_row.IntID = Str ''3'', long_row.IntName = Str ''Bina'',
       long_row.duration_minutes = 29, long_row.DK_count = 1, long_row.RF_count = 0,
       long_row.NA_count = 0, long_row.questions_answered = 2\<rparr>]"
    by (simp add: survey_long)
  from summary_per_interviewer[OF survey_Inr mem ne]
  obtain s where s: "[x \<leftarrow> final_df ?R. IntID x = Str ''3''] = [s]"
    "total_interviews s = 2" "avg_duration_minutes s = 14"
    "min_duration_minutes s \<in> {- 1, 29}" "\<forall>d \<in> {- 1, 29}. min_duration_minutes s \<le> d"
    "max_duration_minutes s \<in> {- 1, 29}" "\<forall>d \<in> {- 1, 29}. d \<le> max_duration_minutes s"
    "total_DK s = 2" "total_RF s = 1" "total_NA s = 1" "IntName s = Str ''Bina''"
    unfolding Let_def id g by auto
  from s(4,5) have mn: "min_duration_minutes s = - 1" by auto
  from s(6,7) have mx: "max_duration_minutes s = 29" by auto
  from survey_Inr mem ne id s mn mx show ?thesis
    by blast
qed

subsection \<open>Order of the summary\<close>

lemma scenario_runs: "\<not> isl (pipeline sample_pd scenario)"
  by code_simp

lemma scenario_Inr: "pipeline sample_pd scenario = Inr (projr (pipeline sample_pd scenario))"
  using scenario_runs by simp

lemma scenario_long:
  "long_df (projr (pipeline sample_pd scenario)) =
     [\<lparr>long_row.IntID = Str ''5'', long_row.IntName = Str ''Asha'',
       long_row.duration_minutes = 29, long_row.DK_count = 0, long_row.RF_count = 0,
       long_row.NA_count = 0, long_row.questions_answered = 1\<rparr>,
      \<lparr>long_row.IntID = Str ''3'', long_row.IntName = Str ''Bina'',
       long_row.duration_minutes = 45, long_row.DK_count = 0, long_row.RF_count = 0,
       long_row.NA_count = 0, long_row.questions_answered = 1\<rparr>]"
  by code_simp

lemma scenario_final:
  "final_df (projr (pipeline sample_pd scenario)) =
     [\<lparr>IntID = Str ''3'', IntName = Str ''Bina'', total_interviews = 1,
       avg_duration_minutes = 45, min_duration_minutes = 45, max_duration_minutes = 45,
       avg_questions = 1, total_DK = 0, total_RF = 0, total_NA = 0,
       avg_duration_display = ''45.0 min'', min_duration_display = ''45 min'',
       max_duration_display = ''45 min''\<rparr>,
      \<lparr>IntID = Str ''5'', IntName = Str ''Asha'', total_interviews = 1,
       avg_duration_minutes = 29, min_duration_minutes = 29, max_duration_minutes = 29,
       avg_questions = 1, total_DK = 0, total_RF = 0, total_NA = 0,
       avg_duration_display = ''29.0 min'', min_duration_display = ''29 min'',
       max_duration_display = ''29 min''\<rparr>]"
  by code_simp

lemma IntID_sort_format_row: "IntID_sort pd (format_row pd g) = IntID_sort pd g"
  by (simp add: IntID_sort_def)

lemma aggregate_sorted: "sorted (map (IntID_sort pd) (aggregate pd long))"
proof -
  have "map (IntID_sort pd) (aggregate pd long)
        = map (IntID_sort pd) (sort_key (IntID_sort pd) (groupby_agg long))"
    by (simp add: aggregate_def sort_values_def IntID_sort_format_row)
  then show ?thesis
    by (simp add: sorted_sort_key)
qed

text \<open>
  C6. The summary rows are in ascending order of the interviewer id read as a number, and
  the ids that are not numbers come last: of two rows, the later one has a NaN key, or
  both keys are numbers and the earlier is not the greater. For the two respondents of
  \<open>scenario\<close>, whose role F has the ids 5 and 3 in this order, the summary lists 3 before
  5, each with one interview.
\<close>

theorem summary_sorted_by_numeric_id:
  assumes "pipeline pd df = Inr rep" and "i < j" and "j < length (final_df rep)"
  shows "(case to_numeric pd (IntID (final_df rep ! j)) of
            None \<Rightarrow> True
          | Some y \<Rightarrow> (case to_numeric pd (IntID (final_df rep ! i)) of
                        None \<Rightarrow> False
                      | Some x \<Rightarrow> x \<le> y))
    \<and> map long_row.IntID (long_df (projr (pipeline sample_pd scenario))) = [Str ''5'', Str ''3'']
    \<and> map (\<lambda>s. (IntID s, total_interviews s)) (final_df (projr (pipeline sample_pd scenario)))
        = [(Str ''3'', 1), (Str ''5'', 1)]"
proof -
  from pipeline_InrD[OF assms(1)] have fd: "final_df rep = aggregate pd (long_df rep)"
    by blast
  have "sorted (map (IntID_sort pd) (final_df rep))"
    unfolding fd by (rule aggregate_sorted)
  with assms(2,3) have "map (IntID_sort pd) (final_df rep) ! i \<le> map (IntID_sort pd) (final_df rep) ! j"
    by (simp add: sorted_iff_nth_mono_less)
  with assms(2,3) have le: "IntID_sort pd (final_df rep ! i) \<le> IntID_sort pd (final_df rep ! j)"
    by simp
  have a: "(case to_numeric pd (IntID (final_df rep ! j)) of
            None \<Rightarrow> True
          | Some y \<Rightarrow> (case to_numeric pd (IntID (final_df rep ! i)) of
                        None \<Rightarrow> False
                      | Some x \<Rightarrow> x \<le> y))"
    using le by (auto simp: IntID_sort_def split: option.splits)
  have b: "map long_row.IntID (long_df (projr (pipeline sample_pd scenario))) = [Str ''5'', Str ''3'']"
    by (simp add: scenario_long)
  have c: "map (\<lambda>s. (IntID s, total_interviews s)) (final_df (projr (pipeline sample_pd scenario)))
        = [(Str ''3'', 1), (Str ''5'', 1)]"
    by (simp add: scenario_final)
  from a b c show ?thesis by blast
qed

theorem summary_sorted_by_numeric_id_witness:
  "pipeline sample_pd survey = Inr (projr (pipeline sample_pd survey))
   \<and> (1::nat) < 2 \<and> 2 < length (final_df (projr (pipeline sample_pd survey)))
   \<and> map IntID (final_df (projr (pipeline sample_pd survey))) = [Str ''3'', Str ''5'', Str ''x7'']
   \<and> map (to_numeric sample_pd) [Str ''3'', Str ''5'', Str ''x7''] = [Some 3, Some 5, None]
   \<and> (case to_numeric sample_pd (IntID (final_df (projr (pipeline sample_pd survey)) ! 2)) of
         None \<Rightarrow> True
       | Some y \<Rightarrow>
           (case to_numeric sample_pd (IntID (final_df (projr (pipeline sample_pd survey)) ! 1)) of
              None \<Rightarrow> False
            | Some x \<Rightarrow> x \<le> y))"
proof -
  let ?R = "projr (pipeline sample_pd survey)"
  have j: "2 < length (final_df ?R)"
    by (simp add: survey_final)
  have i: "(1::nat) < 2"
    by simp
  have ids: "map IntID (final_df ?R) = [Str ''3'', Str ''5'', Str ''x7'']"
    by (simp add: survey_final)
  have k: "map (to_numeric sample_pd) [Str ''3'', Str ''5'', Str ''x7''] = [Some 3, Some 5, None]"
    by code_simp
  from summary_sorted_by_numeric_id[OF survey_Inr i j] survey_Inr i j ids k show ?thesis
    by blast
qed

subsection \<open>Rounding of the mean number of questions\<close>

lemma round_half_even_nearest:
  "\<bar>of_int (round_half_even x) - x\<bar> \<le> 1 / 2 \<and>
   (\<bar>of_int (round_half_even x) - x\<bar> = 1 / 2 \<longrightarrow> even (round_half_even x))"
proof -
  define f where "f = \<lfloor>x\<rfloor>"
  define d where "d = x - of_int f"
  have d: "0 \<le> d" "d < 1"
    unfolding d_def f_def by linarith+
  have x: "x = of_int f + d"
    by (simp add: d_def)
  have r: "round_half_even x
           = (if d < 1 / 2 then f else if 1 / 2 < d then f + 1 else if even f then f else f + 1)"
    by (simp add: round_half_even_def Let_def f_def d_def)
  consider "d < 1 / 2" | "1 / 2 < d" | "d = 1 / 2" "even f" | "d = 1 / 2" "odd f"
    by fastforce
  then show ?thesis
  proof cases
    case 1
    then have "round_half_even x = f" by (simp add: r)
    with 1 d show ?thesis by (simp add: x)
  next
    case 2
    then have "round_half_even x = f + 1" by (simp add: r)
    with 2 d show ?thesis by (simp add: x)
  next
    case 3
    then have "round_half_even x = f" by (simp add: r)
    with 3 show ?thesis by (simp add: x)
  next
    case 4
    then have "round_half_even x = f + 1" by (simp add: r)
    with 4 show ?thesis by (simp add: x)
  qed
qed

lemma mean_questions:
  "mean (map (int \<circ> questions_answered) g)
     = of_nat (sum_list (map questions_answered g)) / of_nat (length g)"
proof -
  have "sum_list (map (int \<circ> questions_answered) g) = int (sum_list (map questions_answered g))"
    by (induction g) simp_all
  then show ?thesis
    by (simp add: mean_def)
qed

text \<open>
  C8, as the code has it. For every row of the summary, \<open>avg_questions\<close> is the mean of
  the \<open>questions_answered\<close> values of the long rows with that id, rounded to the nearest
  integer, and a mean that lies halfway between two integers goes to the even one: 2.5
  gives 2 and 3.5 gives 4.
\<close>

theorem avg_questions_half_even:
  assumes "pipeline pd df = Inr rep" and "s \<in> set (final_df rep)"
  shows "(let g = [x \<leftarrow> long_df rep. long_row.IntID x = IntID s];
              m = (of_nat (sum_list (map questions_answered g)) / of_nat (length g) :: rat)
          in \<bar>of_int (avg_questions s) - m\<bar> \<le> 1 / 2
             \<and> (\<bar>of_int (avg_questions s) - m\<bar> = 1 / 2 \<longrightarrow> even (avg_questions s)))
    \<and> round_half_even (5 / 2) = 2 \<and> round_half_even (7 / 2) = 4"
proof -
  from pipeline_InrD[OF assms(1)] have fd: "final_df rep = aggregate pd (long_df rep)"
    by blast
  from assms(2) obtain k where
    s: "s = format_row pd (agg k (group_of k (long_df rep)))"
    unfolding fd aggregate_mem by blast
  have id: "IntID s = k"
    by (simp add: s)
  have "avg_questions s
        = round_half_even (of_nat (sum_list (map questions_answered (group_of k (long_df rep))))
                           / of_nat (length (group_of k (long_df rep))))"
    by (simp add: s format_row_def agg_def mean_questions)
  then have a: "let g = [x \<leftarrow> long_df rep. long_row.IntID x = IntID s];
              m = (of_nat (sum_list (map questions_answered g)) / of_nat (length g) :: rat)
          in \<bar>of_int (avg_questions s) - m\<bar> \<le> 1 / 2
             \<and> (\<bar>of_int (avg_questions s) - m\<bar> = 1 / 2 \<longrightarrow> even (avg_questions s))"
    unfolding Let_def id group_of_def using round_half_even_nearest by simp
  have b: "round_half_even (5 / 2) = 2" "round_half_even (7 / 2) = 4"
    by code_simp+
  from a b show ?thesis by blast
qed

theorem avg_questions_half_even_witness:
  "pipeline sample_pd survey = Inr (projr (pipeline sample_pd survey))
   \<and> final_df (projr (pipeline sample_pd survey)) ! 0
       \<in> set (final_df (projr (pipeline sample_pd survey)))
   \<and> IntID (final_df (projr (pipeline sample_pd survey)) ! 0) = Str ''3''
   \<and> map questions_answered
        [x \<leftarrow> long_df (projr (pipeline sample_pd survey)). long_row.IntID x = Str ''3''] = [3, 2]
   \<and> avg_questions (final_df (projr (pipeline sample_pd survey)) ! 0) = 2
   \<and> even (avg_questions (final_df (projr (pipeline sample_pd survey)) ! 0))"
proof -
  let ?R = "projr (pipeline sample_pd survey)"
  let ?s = "final_df ?R ! 0"
  have mem: "?s \<in> set (final_df ?R)"
    by (simp add: survey_final)
  have id: "IntID ?s = Str ''3''"
    by (simp add: survey_final)
  have q: "map questions_answered [x \<leftarrow> long_df ?R. long_row.IntID x = Str ''3''] = [3, 2]"
    by (simp add: survey_long)
  have l: "length [x \<leftarrow> long_df ?R. long_row.IntID x = Str ''3''] = 2"
    using arg_cong[OF q, of length] by simp
  have v: "avg_questions ?s = 2"
    by (simp add: survey_final)
  from avg_questions_half_even[OF survey_Inr mem]
  have "\<bar>of_int (avg_questions ?s) - (5 / 2 :: rat)\<bar> = 1 / 2 \<longrightarrow> even (avg_questions ?s)"
    unfolding Let_def id q l by simp
  then have "even (avg_questions ?s)"
    by (simp add: v)
  with survey_Inr mem id q v show ?thesis
    by blast
qed

text \<open>
  C8, as stated, fails on \<open>survey\<close>: the two long rows of interviewer 3 have 3 and 2
  questions answered, the mean is 2.5, rounding half up gives 3, and the summary has 2.
\<close>

theorem avg_questions_not_half_up:
  "IntID (final_df (projr (pipeline sample_pd survey)) ! 0) = Str ''3''
   \<and> map questions_answered (group_of (Str ''3'') (long_df (projr (pipeline sample_pd survey))))
       = [3, 2]
   \<and> mean (map (int \<circ> questions_answered)
              (group_of (Str ''3'') (long_df (projr (pipeline sample_pd survey))))) = 5 / 2
   \<and> round_half_up (5 / 2) = 3
   \<and> avg_questions (final_df (projr (pipeline sample_pd survey)) ! 0) = 2"
proof -
  let ?R = "projr (pipeline sample_pd survey)"
  have a: "IntID (final_df ?R ! 0) = Str ''3''" "avg_questions (final_df ?R ! 0) = 2"
    by (simp_all add: survey_final)
  have b: "map questions_answered (group_of (Str ''3'') (long_df ?R)) = [3, 2]"
    by (simp add: survey_long group_of_def)
  have c: "mean (map (int \<circ> questions_answered) (group_of (Str ''3'') (long_df ?R))) = 5 / 2"
    by (simp add: survey_long group_of_def mean_def)
  have d: "round_half_up (5 / 2) = 3"
    by code_simp
  from a b c d show ?thesis by blast
qed

subsection \<open>Rows without an interviewer id\<close>

lemma sum_list_insort_key:
  "sum_list (map f (insort_key g x xs)) = (f x :: nat) + sum_list (map f xs)"
  by (induction xs) simp_all

lemma sum_list_sort_key: "sum_list (map f (sort_key g xs)) = (sum_list (map f xs) :: nat)"
  by (induction xs) (simp_all add: sum_list_insort_key)

lemma length_filter_split:
  assumes "\<forall>x \<in> set xs. \<not> (P x \<and> Q x)"
  shows "length (filter P xs) + length (filter Q xs) = length (filter (\<lambda>x. P x \<or> Q x) xs)"
  using assms by (induction xs) auto

lemma count_by_key:
  "distinct ks \<Longrightarrow>
     sum_list (map (\<lambda>k. length [x \<leftarrow> xs. f x = k]) ks) = length [x \<leftarrow> xs. f x \<in> set ks]"
proof (induction ks)
  case Nil
  show ?case by simp
next
  case (Cons k ks)
  then have d: "\<forall>x \<in> set xs. \<not> (f x = k \<and> f x \<in> set ks)"
    by auto
  have "sum_list (map (\<lambda>k. length [x \<leftarrow> xs. f x = k]) (k # ks))
        = length [x \<leftarrow> xs. f x = k] + length [x \<leftarrow> xs. f x \<in> set ks]"
    using Cons by simp
  also have "\<dots> = length [x \<leftarrow> xs. f x = k \<or> f x \<in> set ks]"
    by (rule length_filter_split[OF d])
  finally show ?case by simp
qed

lemma total_interviews_sum:
  "sum_list (map total_interviews (aggregate pd long))
     = length [l \<leftarrow> long. long_row.IntID l \<noteq> NaN]"
proof -
  have "sum_list (map total_interviews (aggregate pd long))
        = sum_list (map (\<lambda>k. length [x \<leftarrow> long. long_row.IntID x = k]) (group_keys long))"
    by (simp add: aggregate_def sort_values_def groupby_agg_def comp_def format_row_def agg_def
          group_of_def sum_list_sort_key)
  also have "\<dots> = length [x \<leftarrow> long. long_row.IntID x \<in> set (group_keys long)]"
    by (rule count_by_key[OF group_keys_distinct])
  also have "[x \<leftarrow> long. long_row.IntID x \<in> set (group_keys long)]
             = [l \<leftarrow> long. long_row.IntID l \<noteq> NaN]"
    by (rule filter_cong) (auto simp: group_keys_set)
  finally show ?thesis .
qed

text \<open>
  C10. No row of the summary has a missing id. The long rows whose id is missing belong to
  no group: the \<open>total_interviews\<close> of the summary add up to the number of long rows with
  an id, which is less than the number of long rows as soon as one id is missing.
\<close>

theorem missing_ids_not_aggregated:
  assumes "pipeline pd df = Inr rep"
  shows "(\<forall>s \<in> set (final_df rep). IntID s \<noteq> NaN)
    \<and> sum_list (map total_interviews (final_df rep))
        = length [l \<leftarrow> long_df rep. long_row.IntID l \<noteq> NaN]
    \<and> ((\<exists>l \<in> set (long_df rep). long_row.IntID l = NaN) \<longrightarrow>
         sum_list (map total_interviews (final_df rep)) < length (long_df rep))"
proof -
  from pipeline_InrD[OF assms] have fd: "final_df rep = aggregate pd (long_df rep)"
    by blast
  have a: "\<forall>s \<in> set (final_df rep). IntID s \<noteq> NaN"
  proof
    fix s assume "s \<in> set (final_df rep)"
    then obtain k where k: "k \<in> set (group_keys (long_df rep))"
      and s: "s = format_row pd (agg k (group_of k (long_df rep)))"
      unfolding fd aggregate_mem by blast
    from k have "k \<noteq> NaN" by (simp add: group_keys_set)
    then show "IntID s \<noteq> NaN" by (simp add: s)
  qed
  have b: "sum_list (map total_interviews (final_df rep))
        = length [l \<leftarrow> long_df rep. long_row.IntID l \<noteq> NaN]"
    unfolding fd by (rule total_interviews_sum)
  have c: "sum_list (map total_interviews (final_df rep)) < length (long_df rep)"
    if "\<exists>l \<in> set (long_df rep). long_row.IntID l = NaN"
    unfolding b using that by (auto intro: length_filter_less)
  from a b c show ?thesis by blast
qed

theorem missing_ids_not_aggregated_witness:
  "pipeline sample_pd survey = Inr (projr (pipeline sample_pd survey))
   \<and> long_df (projr (pipeline sample_pd survey)) ! 4
       \<in> set (long_df (projr (pipeline sample_pd survey)))
   \<and> long_row.IntID (long_df (projr (pipeline sample_pd survey)) ! 4) = NaN
   \<and> length (long_df (projr (pipeline sample_pd survey))) = 6
   \<and> sum_list (map total_interviews (final_df (projr (pipeline sample_pd survey)))) = 5
   \<and> sum_list (map total_interviews (final_df (projr (pipeline sample_pd survey))))
       < length (long_df (projr (pipeline sample_pd survey)))
   \<and> map IntID (final_df (projr (pipeline sample_pd survey)))
       = [Str ''3'', Str ''5'', Str ''x7'']"
proof -
  let ?R = "projr (pipeline sample_pd survey)"
  have m: "long_df ?R ! 4 \<in> set (long_df ?R)"
    by (simp add: survey_long)
  have n: "long_row.IntID (long_df ?R ! 4) = NaN"
    by (simp add: survey_long)
  have l: "length (long_df ?R) = 6"
    by (simp add: survey_long)
  have t: "sum_list (map total_interviews (final_df ?R)) = 5"
    by (simp add: survey_final)
  from m n have e: "\<exists>l \<in> set (long_df ?R). long_row.IntID l = NaN"
    by blast
  have i: "map IntID (final_df ?R) = [Str ''3'', Str ''5'', Str ''x7'']"
    by (simp add: survey_final)
  from missing_ids_not_aggregated[OF survey_Inr] e m n l t i survey_Inr show ?thesis
    by blast
qed

subsection \<open>Roles without an id column\<close>

text \<open>
  C7. A name column for which no id column is found is skipped by the loop without any
  message. When this leaves no role at all, as in \<open>orphan_role\<close>, whose only role F has a
  name column and no id column, \<open>pd.concat\<close> is called on the empty list and the run ends
  with a ValueError instead of a result.
\<close>

theorem unmatched_roles_stop_the_run:
  "interviewer_name_cols (columns orphan_role) = [''FIntName_W4'']
   \<and> interviewer_id_cols (columns orphan_role) = []
   \<and> resolved_roles (columns orphan_role) = []
   \<and> pipeline pd orphan_role = Inl (ValueError ''No objects to concatenate'')"
proof -
  have a: "interviewer_name_cols (columns orphan_role) = [''FIntName_W4'']"
    by code_simp
  have b: "interviewer_id_cols (columns orphan_role) = []"
    by code_simp
  have c: "resolved_roles (columns orphan_role) = []"
    by code_simp
  have d: "pipeline pd orphan_role = Inl (ValueError ''No objects to concatenate'')"
    unfolding pipeline_def time_conversion_def getitem_def duration_check_def Let_def
      reshape_resolved c
    by (simp add: set_df_columns) (simp add: orphan_role_def table_def)
  from a b c d show ?thesis by blast
qed

subsection \<open>The exported workbook\<close>

lemma to_excel_header:
  "map sheet_name (to_excel fd) = [''Interviewer Stats'']"
  "map header (to_excel fd) =
     [[''IntID'', ''IntName'', ''total_interviews'', ''avg_duration_minutes'',
       ''min_duration_minutes'', ''max_duration_minutes'', ''avg_questions'',
       ''total_DK'', ''total_RF'', ''total_NA'', ''avg_duration_display'',
       ''min_duration_display'', ''max_duration_display'']]"
  by (simp_all add: to_excel_def final_columns_def agg_columns_def assign_column_def)

text \<open>
  C9. The workbook has the single sheet \<open>Interviewer Stats\<close>, with the rows in the order
  of the sort. The sheet is written from \<open>final_df\<close> as it stands, so it has thirteen
  columns: the ten of the table shown on screen and, in addition,
  \<open>avg_duration_minutes\<close>, \<open>min_duration_minutes\<close> and \<open>max_duration_minutes\<close>; the three
  display columns come last.
\<close>

theorem workbook_has_thirteen_columns:
  "map sheet_name (workbook (projr (pipeline sample_pd scenario))) = [''Interviewer Stats'']
   \<and> map header (workbook (projr (pipeline sample_pd scenario))) =
       [[''IntID'', ''IntName'', ''total_interviews'', ''avg_duration_minutes'',
         ''min_duration_minutes'', ''max_duration_minutes'', ''avg_questions'',
         ''total_DK'', ''total_RF'', ''total_NA'', ''avg_duration_display'',
         ''min_duration_display'', ''max_duration_display'']]
   \<and> map body (workbook (projr (pipeline sample_pd scenario))) =
       [[[XCell (Str ''3''), XCell (Str ''Bina''), XInt 1, XFloat 45, XInt 45, XInt 45, XInt 1,
          XInt 0, XInt 0, XInt 0, XText ''45.0 min'', XText ''45 min'', XText ''45 min''],
         [XCell (Str ''5''), XCell (Str ''Asha''), XInt 1, XFloat 29, XInt 29, XInt 29, XInt 1,
          XInt 0, XInt 0, XInt 0, XText ''29.0 min'', XText ''29 min'', XText ''29 min'']]]
   \<and> header (summary_table (projr (pipeline sample_pd scenario))) =
       [''IntID'', ''IntName'', ''total_interviews'', ''min_duration_display'',
        ''avg_duration_display'', ''max_duration_display'', ''avg_questions'',
        ''total_DK'', ''total_RF'', ''total_NA'']"
proof -
  let ?R = "projr (pipeline sample_pd scenario)"
  from pipeline_InrD[OF scenario_Inr] have
    w: "workbook ?R = to_excel (final_df ?R)" and
    t: "summary_table ?R = summary_display (final_df ?R)"
    by blast+
  have b: "map body (to_excel (final_df ?R)) =
       [[[XCell (Str ''3''), XCell (Str ''Bina''), XInt 1, XFloat 45, XInt 45, XInt 45, XInt 1,
          XInt 0, XInt 0, XInt 0, XText ''45.0 min'', XText ''45 min'', XText ''45 min''],
         [XCell (Str ''5''), XCell (Str ''Asha''), XInt 1, XFloat 29, XInt 29, XInt 29, XInt 1,
          XInt 0, XInt 0, XInt 0, XText ''29.0 min'', XText ''29 min'', XText ''29 min'']]]"
    unfolding scenario_final by code_simp
  have h: "header (summary_display (final_df ?R)) =
       [''IntID'', ''IntName'', ''total_interviews'', ''min_duration_display'',
        ''avg_duration_display'', ''max_duration_display'', ''avg_questions'',
        ''total_DK'', ''total_RF'', ''total_NA'']"
    by (simp add: summary_display_def summary_cols_def)
  from to_excel_header[of "final_df ?R"] b h show ?thesis
    unfolding w t by blast
qed

end
